theory Spec2Isabelle
  imports Main
begin

section \<open>Chant search: query construction\<close>

text \<open>
  The chant search controller builds a Solr query from the search input
  (\<open>query\<close>, \<open>field\<close>) and the controller's restrictions. A JavaScript string is
  modelled as a \<open>string\<close>, the sequence of its code units, so that \<open>length\<close> is the
  string's \<open>.length\<close>.
\<close>

subsection \<open>Query values and the query builder\<close>

text \<open>
  A query is either a string or an array of strings (\<open>_.isString(query)\<close> tells them
  apart); the mode search delivers an array.
\<close>

datatype qvalue = QStr string | QArr "string list"

text \<open>
  Modelled from the spec: the class \<open>utils/SolrQuery\<close> is not part of the sources at
  hand. The spec gives its contract as \<open>setField(name, value, combinator?)\<close>, which adds
  a constraint. The builder is therefore represented by the constraints it has been given,
  one per \<open>setField\<close> call, in call order, each with the arguments of the call
  (\<open>combinator = None\<close> when the call passes two arguments).
\<close>

record constraint =
  cfield :: string
  cvalue :: qvalue
  combinator :: "string option"

type_synonym SolrQuery = "constraint list"

definition newSolrQuery :: SolrQuery where
  "newSolrQuery = []"

definition setField :: "SolrQuery \<Rightarrow> string \<Rightarrow> qvalue \<Rightarrow> string option \<Rightarrow> SolrQuery" where
  "setField queryBuilder fld v comb =
     queryBuilder @ [\<lparr>cfield = fld, cvalue = v, combinator = comb\<rparr>]"

subsection \<open>Searchable field names\<close>

definition stringFields :: "string list" where
  "stringFields =
     [''feast'', ''office'', ''genre'', ''position'', ''mode'', ''differentia'',
      ''finalis'', ''folio'']"

definition getSearchField :: "string \<Rightarrow> string" where
  "getSearchField fld = (if fld \<in> set stringFields then fld @ ''_t_hidden'' else fld)"

subsection \<open>The mode workaround\<close>

text \<open>\<open>Array.prototype.join\<close> on an array of strings.\<close>

fun join :: "string \<Rightarrow> string list \<Rightarrow> string" where
  "join sep [] = []"
| "join sep [x] = x"
| "join sep (x # y # ys) = x @ sep @ join sep (y # ys)"

text \<open>
  The loop of \<open>setSearchQueryOnBuilder\<close> pushes each value of the array onto
  \<open>modeStringValues\<close> when its length is exactly 1 and onto \<open>modeTextValues\<close>
  otherwise; the pair of arrays is the loop state.
\<close>

fun partitionModeValues :: "string list \<Rightarrow> string list \<times> string list \<Rightarrow> string list \<times> string list" where
  "partitionModeValues [] acc = acc"
| "partitionModeValues (v # vs) (modeStringValues, modeTextValues) =
     (if length v = 1
      then partitionModeValues vs (modeStringValues @ [v], modeTextValues)
      else partitionModeValues vs (modeStringValues, modeTextValues @ [v]))"

definition hardCodedQuery :: "string list \<Rightarrow> string list \<Rightarrow> string" where
  "hardCodedQuery modeStringValues modeTextValues =
     ''(mode:('' @ join '' OR '' modeStringValues @ '') OR mode_t_hidden:('' @
     join '' OR '' modeTextValues @ ''))''"

definition setSearchQueryOnBuilder :: "SolrQuery \<Rightarrow> string \<Rightarrow> qvalue \<Rightarrow> SolrQuery" where
  "setSearchQueryOnBuilder queryBuilder fld query =
     (if fld \<noteq> ''mode'' then setField queryBuilder (getSearchField fld) query (Some ''OR'')
      else (case query of
          QStr s \<Rightarrow>
            setField queryBuilder (if length s = 1 then ''mode'' else ''mode_t_hidden'') query None
        | QArr vs \<Rightarrow>
            (case partitionModeValues vs ([], []) of (modeStringValues, modeTextValues) \<Rightarrow>
               if length modeStringValues = 0
               then setField queryBuilder ''mode_t_hidden'' (QArr modeTextValues) (Some ''OR'')
               else if length modeTextValues = 0
               then setField queryBuilder ''mode'' (QArr modeStringValues) (Some ''OR'')
               else setField queryBuilder ''_hardcodedSpecialQuery''
                      (QStr (hardCodedQuery modeStringValues modeTextValues)) None)))"

subsection \<open>The search result collection\<close>

text \<open>
  Modelled from the spec: the class \<open>collections/SearchResultCollection\<close> is not part
  of the sources at hand; \<open>search\<close> calls its \<open>fetch\<close>, \<open>invalidateFetch\<close> and
  \<open>reset\<close>. The spec (SearchResultStore) says: \<open>fetch\<close> issues a lookup and replaces
  the stored results and metadata on completion; \<open>invalidateFetch\<close> marks any in-flight
  or stale fetch as void, so that late completions are ignored; \<open>reset\<close> clears results
  and metadata to empty and zero; a fetch superseded by a newer one must not overwrite the
  state when it completes, which is achieved by an invalidation token checked at completion
  time, the request itself not being cancelled.

  The store holds the result sequence, \<open>metadata.numFound\<close>, the requests sent to the
  backend in the order they were issued (the token of a request is its position in that
  sequence) and the token whose completion is still authoritative.
\<close>

record 'r response =
  results :: "'r list"
  numFound :: nat

record 'r SearchResultCollection =
  models :: "'r list"
  metadata_numFound :: nat
  issued :: "SolrQuery list"
  authoritative :: "nat option"

definition fetch :: "'r SearchResultCollection \<Rightarrow> SolrQuery \<Rightarrow> 'r SearchResultCollection" where
  "fetch c baseSolrQuery =
     c\<lparr>issued := issued c @ [baseSolrQuery], authoritative := Some (length (issued c))\<rparr>"

definition invalidateFetch :: "'r SearchResultCollection \<Rightarrow> 'r SearchResultCollection" where
  "invalidateFetch c = c\<lparr>authoritative := None\<rparr>"

definition reset :: "'r SearchResultCollection \<Rightarrow> 'r SearchResultCollection" where
  "reset c = c\<lparr>models := [], metadata_numFound := 0\<rparr>"

text \<open>
  The completion of the request with token \<open>tok\<close>, carrying the backend's response: the
  token is checked, and a voided or superseded request changes nothing.
\<close>

definition fetchComplete ::
    "'r SearchResultCollection \<Rightarrow> nat \<Rightarrow> 'r response \<Rightarrow> 'r SearchResultCollection" where
  "fetchComplete c tok resp =
     (if authoritative c = Some tok
      then c\<lparr>models := results resp, metadata_numFound := numFound resp\<rparr>
      else c)"

subsection \<open>The search controller\<close>

text \<open>
  \<open>searchParameters\<close> is the search input model with its attributes \<open>query\<close> and
  \<open>field\<close>; an attribute that is not set is \<open>None\<close>. \<open>restrictions\<close> is the
  object of field: value pairs, as the sequence of its properties in the order
  \<open>_.forEach\<close> visits them.
\<close>

record SearchInput =
  query :: "qvalue option"
  field :: string

record 'r ChantSearchProvider =
  searchParameters :: SearchInput
  restrictions :: "(string \<times> string) list"
  collection :: "'r SearchResultCollection"

text \<open>\<open>!query\<close>: an unset query and the empty string are falsy, every array is truthy.\<close>

fun falsy :: "qvalue option \<Rightarrow> bool" where
  "falsy None = True"
| "falsy (Some (QStr s)) = (s = [])"
| "falsy (Some (QArr vs)) = False"

text \<open>\<open>String.prototype.split(',')\<close>: the pieces between the commas, empty ones kept.\<close>

fun split_comma :: "string \<Rightarrow> string list" where
  "split_comma [] = [[]]"
| "split_comma (c # cs) =
     (if c = CHR '','' then [] # split_comma cs
      else (case split_comma cs of
          [] \<Rightarrow> [[c]]
        | w # ws \<Rightarrow> (c # w) # ws))"

text \<open>
  The query as \<open>search\<close> hands it to the builder: when the field is not \<open>all\<close>, a
  string is split.
\<close>

fun splitQuery :: "string \<Rightarrow> qvalue \<Rightarrow> qvalue" where
  "splitQuery fld (QStr s) = (if fld \<noteq> ''all'' then QArr (split_comma s) else QStr s)"
| "splitQuery fld (QArr vs) = QArr vs"

definition applyRestrictions :: "SolrQuery \<Rightarrow> (string \<times> string) list \<Rightarrow> SolrQuery" where
  "applyRestrictions queryBuilder rs =
     foldl (\<lambda>qb (fld, v). setField qb (getSearchField fld) (QStr v) None) queryBuilder rs"

text \<open>
  \<open>search\<close> itself. An unset query is falsy, so the branch for \<open>None\<close> after the
  test is never taken.
\<close>

definition search :: "'r ChantSearchProvider \<Rightarrow> 'r ChantSearchProvider" where
  "search s =
     (let query = query (searchParameters s); fld = field (searchParameters s) in
      if falsy query
      then s\<lparr>collection := reset (invalidateFetch (collection s))\<rparr>
      else (case query of
          None \<Rightarrow> s
        | Some q \<Rightarrow>
            (let queryBuilder = setSearchQueryOnBuilder newSolrQuery fld (splitQuery fld q);
                 queryBuilder = applyRestrictions queryBuilder (restrictions s)
             in s\<lparr>collection := fetch (collection s) queryBuilder\<rparr>)))"

section \<open>Notation search: synchronising results with the viewer\<close>

text \<open>
  The notation search view keeps the fetched result model (attributes \<open>results\<close> and
  \<open>numFound\<close>), a paginator, and a reference to the Diva view. The Diva view is
  represented by the calls made on it, in order. Of the page, the content of the
  \<open>.note-pagination\<close> element is modelled: the paginator mounted there, or nothing; the
  heading written into \<open>.note-search-results\<close> is left out.

  A method of the view either returns or throws; the state it leaves behind is kept in
  both cases.
\<close>

datatype 's outcome = Returned 's | ThrewTypeError 's

fun stateOf :: "'s outcome \<Rightarrow> 's" where
  "stateOf (Returned s) = s"
| "stateOf (ThrewTypeError s) = s"

text \<open>
  Modelled from the spec: the class \<open>views/PaginationView\<close> is not part of the sources
  at hand. The view's code constructs it from the options \<open>name\<close>, \<open>currentPage\<close>,
  \<open>elementCount\<close> and \<open>pageSize\<close>, and the spec says that \<open>getPage()\<close> returns the
  1-based current index.
\<close>

record PaginationView =
  name :: string
  currentPage :: nat
  elementCount :: nat
  pageSize :: nat

definition getPage :: "PaginationView \<Rightarrow> nat" where
  "getPage p = currentPage p"

datatype 'r divaCall = PaintBoxes "'r list" | ZoomToLocation "'r option"

record 'r SearchNotationView =
  resultsModel :: "'r response"
  paginator :: PaginationView
  divaView :: "'r divaCall list"
  notePagination :: "PaginationView option"

text \<open>Reading \<open>xs[i]\<close>: out of range the value is \<open>undefined\<close>, here \<open>None\<close>.\<close>

definition at_index :: "'a list \<Rightarrow> int \<Rightarrow> 'a option" where
  "at_index xs i = (if 0 \<le> i \<and> i < int (length xs) then Some (xs ! nat i) else None)"

definition zoomToResult :: "'r SearchNotationView \<Rightarrow> 'r SearchNotationView" where
  "zoomToResult s =
     (let newIndex = int (getPage (paginator s)) - 1 in
      s\<lparr>divaView := divaView s @ [ZoomToLocation (at_index (results (resultsModel s)) newIndex)]\<rparr>)"


text \<open>
  \<open>renderResults\<close> writes the heading and then calls
  \<open>this.assign(this.paginator, ...)\<close>. The view defines no method \<open>assign\<close>, and it
  extends \<open>Marionette.LayoutView\<close>, which has none either: the call throws a
  \<open>TypeError\<close>, and the \<open>.note-pagination\<close> element is left as it was.
\<close>

definition renderResults :: "'r SearchNotationView \<Rightarrow> 'r SearchNotationView outcome" where
  "renderResults s = ThrewTypeError s"

text \<open>
  \<open>resultFetchCallback\<close> runs on every \<open>sync\<close> of the result model, whose attributes
  then hold the response. It also subscribes \<open>zoomToResult\<close> to the changes of the new
  paginator; the subscription has no effect of its own and is not part of the state.
\<close>

definition resultFetchCallback :: "'r SearchNotationView \<Rightarrow> 'r SearchNotationView outcome" where
  "resultFetchCallback s =
     (let s = s\<lparr>divaView := divaView s @ [PaintBoxes (results (resultsModel s))]\<rparr>;
          s = s\<lparr>paginator :=
                 \<lparr>name = ''notation-paginator'', currentPage = 1,
                  elementCount = numFound (resultsModel s), pageSize = 1\<rparr>\<rparr>;
          s = zoomToResult s
      in renderResults s)"

section \<open>Templates\<close>

subsection \<open>Loading a bundled template\<close>

text \<open>
  \<open>templates\<close> is the bundled module, an object from file names to compiled templates;
  it is a parameter here. A thrown \<open>Error\<close> is a value with its \<open>name\<close> and
  \<open>message\<close>.
\<close>

record jsError =
  errName :: string
  errMessage :: string

text \<open>\<open>templateId.replace(/^#/, '')\<close>: one leading \<open>#\<close> is dropped.\<close>

fun stripHash :: "string \<Rightarrow> string" where
  "stripHash [] = []"
| "stripHash (c # cs) = (if c = CHR ''#'' then cs else c # cs)"

definition templateFile :: "string \<Rightarrow> string" where
  "templateFile templateId = stripHash templateId @ ''.html''"

definition loadTemplate :: "(string \<rightharpoonup> 't) \<Rightarrow> string \<Rightarrow> jsError + 't" where
  "loadTemplate templates templateId =
     (case templates (templateFile templateId) of
        None \<Rightarrow>
          Inl \<lparr>errName = ''NoTemplateError'',
               errMessage = ''Could not find template: '' @ [CHR 0x22] @ templateId @
                 [CHR 0x22] @ '' ('' @ templateFile templateId @ '')''\<rparr>
      | Some t \<Rightarrow> Inr t)"

subsection \<open>Writing the bundle\<close>

text \<open>
  A template object has the file name and the source of the compiled template function.
  The stream is the sequence of chunks written to it; \<open>options\<close> is \<open>None\<close> when the
  caller passes none, and \<open>preface\<close> is \<open>None\<close> when the option is absent. The
  preface is a string; an empty one is falsy and is not written.
\<close>

record templateSource =
  "file" :: string
  cwd :: "string option"
  template :: string






section \<open>Vocabulary of the statements\<close>

text \<open>
  The values of a query are the elements of an array query, and the string itself for a
  string query. A value is single-character when its length is 1 and multi-character when
  its length exceeds 1.
\<close>

definition qvalues :: "qvalue \<Rightarrow> string list" where
  "qvalues q = (case q of QStr s \<Rightarrow> [s] | QArr vs \<Rightarrow> vs)"

definition singleCharacter :: "string \<Rightarrow> bool" where
  "singleCharacter v = (length v = 1)"

definition multiCharacter :: "string \<Rightarrow> bool" where
  "multiCharacter v = (1 < length v)"

definition defaultCombinator :: "qvalue \<Rightarrow> string option" where
  "defaultCombinator q = (case q of QStr s \<Rightarrow> None | QArr vs \<Rightarrow> Some ''OR'')"






section \<open>Example states\<close>

text \<open>
  A controller whose query has just been emptied while a fetch is in flight, a search for
  two feasts typed with a comma, and a search over all fields under two restrictions.
\<close>

definition inFlight :: "nat ChantSearchProvider" where
  "inFlight =
     \<lparr>searchParameters = \<lparr>query = Some (QStr []), field = ''all''\<rparr>,
      restrictions = [(''manuscript'', ''CDN-Hsmu M2149.L4'')],
      collection = \<lparr>models = [4, 2], metadata_numFound = 2,
                    issued = [[\<lparr>cfield = ''all'', cvalue = QStr ''pater'', combinator = Some ''OR''\<rparr>]],
                    authoritative = Some 0\<rparr>\<rparr>"

definition feastSearch :: "nat ChantSearchProvider" where
  "feastSearch =
     \<lparr>searchParameters = \<lparr>query = Some (QStr ''Nativitas,Epiphania''), field = ''feast''\<rparr>,
      restrictions = [],
      collection = \<lparr>models = [], metadata_numFound = 0, issued = [], authoritative = None\<rparr>\<rparr>"

definition restrictedSearch :: "nat ChantSearchProvider" where
  "restrictedSearch =
     \<lparr>searchParameters = \<lparr>query = Some (QStr ''pater''), field = ''all''\<rparr>,
      restrictions = [(''manuscript'', ''CDN-Hsmu M2149.L4''), (''feast'', ''Easter'')],
      collection = \<lparr>models = [], metadata_numFound = 0, issued = [], authoritative = None\<rparr>\<rparr>"

text \<open>The restricted search once issued, the input then changed to the feast search.\<close>

definition feastAfterwards :: "nat ChantSearchProvider" where
  "feastAfterwards = (search restrictedSearch)\<lparr>searchParameters := searchParameters feastSearch\<rparr>"



definition bundled :: "string \<rightharpoonup> nat" where
  "bundled = [''manuscript.html'' \<mapsto> 1, ''search.html'' \<mapsto> 2]"



section \<open>Properties\<close>

subsection \<open>Searchable field names\<close>

text \<open>
  C1: for every field name \<open>f\<close>, \<open>getSearchField f\<close> is \<open>f\<close> followed by
  \<open>_t_hidden\<close> when \<open>f\<close> is one of feast, office, genre, position, mode, differentia,
  finalis, folio, and is \<open>f\<close> itself for every other field name.
\<close>

theorem getSearchField_string_indexed:
  "getSearchField f =
     (if f \<in> {''feast'', ''office'', ''genre'', ''position'', ''mode'', ''differentia'',
               ''finalis'', ''folio''}
      then f @ ''_t_hidden'' else f)"
  by (simp add: getSearchField_def stringFields_def)

theorem getSearchField_string_indexed_witness:
  "getSearchField ''feast'' = ''feast_t_hidden'' \<and> getSearchField ''volpiano'' = ''volpiano''"
  using getSearchField_string_indexed [of "''feast''"]
    getSearchField_string_indexed [of "''volpiano''"]
  by simp

subsection \<open>The mode workaround\<close>

text \<open>The loop splits the values by length, keeping their order.\<close>

lemma partitionModeValues_filter:
  "partitionModeValues vs (a, b) =
     (a @ filter (\<lambda>v. length v = 1) vs, b @ filter (\<lambda>v. length v \<noteq> 1) vs)"
  by (induction vs arbitrary: a b) auto

lemma filter_all_single:
  "list_all singleCharacter vs \<Longrightarrow>
     filter (\<lambda>v. length v = 1) vs = vs \<and> filter (\<lambda>v. length v \<noteq> 1) vs = []"
  by (induction vs) (auto simp: singleCharacter_def)

lemma filter_all_multi:
  "list_all multiCharacter vs \<Longrightarrow>
     filter (\<lambda>v. length v = 1) vs = [] \<and> filter (\<lambda>v. length v \<noteq> 1) vs = vs"
  by (induction vs) (auto simp: multiCharacter_def)

text \<open>
  C2: a mode-field query contains at least one value. When its values are all
  single-character, \<open>setSearchQueryOnBuilder\<close> adds exactly one constraint, on the exact
  field \<open>mode\<close>, and none on \<open>mode_t_hidden\<close>; when its values are all
  multi-character, it adds exactly one constraint, on \<open>mode_t_hidden\<close>, and none on
  \<open>mode\<close>. The constraint carries the query's values; an array is passed with the
  combinator \<open>OR\<close>, a string without combinator.
\<close>

theorem mode_query_one_kind:
  "(qvalues q \<noteq> [] \<and> list_all singleCharacter (qvalues q) \<longrightarrow>
      setSearchQueryOnBuilder qb ''mode'' q =
        qb @ [\<lparr>cfield = ''mode'', cvalue = q, combinator = defaultCombinator q\<rparr>]) \<and>
   (qvalues q \<noteq> [] \<and> list_all multiCharacter (qvalues q) \<longrightarrow>
      setSearchQueryOnBuilder qb ''mode'' q =
        qb @ [\<lparr>cfield = ''mode_t_hidden'', cvalue = q, combinator = defaultCombinator q\<rparr>])"
proof (cases q)
  case (QStr s)
  then show ?thesis
    by (simp add: setSearchQueryOnBuilder_def setField_def qvalues_def defaultCombinator_def
        singleCharacter_def multiCharacter_def)
next
  case (QArr vs)
  have single: "setSearchQueryOnBuilder qb ''mode'' (QArr vs) =
      qb @ [\<lparr>cfield = ''mode'', cvalue = QArr vs, combinator = Some ''OR''\<rparr>]"
    if "vs \<noteq> []" "list_all singleCharacter vs"
    using that filter_all_single [OF that(2)]
    by (simp add: setSearchQueryOnBuilder_def setField_def partitionModeValues_filter)
  have multi: "setSearchQueryOnBuilder qb ''mode'' (QArr vs) =
      qb @ [\<lparr>cfield = ''mode_t_hidden'', cvalue = QArr vs, combinator = Some ''OR''\<rparr>]"
    if "list_all multiCharacter vs"
    using filter_all_multi [OF that]
    by (simp add: setSearchQueryOnBuilder_def setField_def partitionModeValues_filter)
  from QArr single multi show ?thesis
    by (simp add: qvalues_def defaultCombinator_def)
qed

theorem mode_query_one_kind_witness:
  "qvalues (QArr [''1'', ''8'']) \<noteq> [] \<and> list_all singleCharacter (qvalues (QArr [''1'', ''8''])) \<and>
   setSearchQueryOnBuilder newSolrQuery ''mode'' (QArr [''1'', ''8'']) =
     [\<lparr>cfield = ''mode'', cvalue = QArr [''1'', ''8''], combinator = Some ''OR''\<rparr>] \<and>
   qvalues (QArr [''1S'', ''2T'']) \<noteq> [] \<and>
   list_all multiCharacter (qvalues (QArr [''1S'', ''2T''])) \<and>
   setSearchQueryOnBuilder newSolrQuery ''mode'' (QArr [''1S'', ''2T'']) =
     [\<lparr>cfield = ''mode_t_hidden'', cvalue = QArr [''1S'', ''2T''], combinator = Some ''OR''\<rparr>]"
  using mode_query_one_kind [of "QArr [''1'', ''8'']" newSolrQuery]
    mode_query_one_kind [of "QArr [''1S'', ''2T'']" newSolrQuery]
  by (simp add: qvalues_def singleCharacter_def multiCharacter_def defaultCombinator_def
      newSolrQuery_def)

text \<open>
  C3, as stated, fails for a query that also contains an empty value, such as the one
  \<open>search\<close> makes of the input \<open>1,2T,\<close>: the loop sends every value whose length is
  not 1 to \<open>modeTextValues\<close>, so the empty value is joined on \<open>mode_t_hidden\<close> with
  the multi-character one, and the clause is not that of the single-character and the
  multi-character values.
\<close>

theorem mode_empty_value_counterexample:
  "split_comma ''1,2T,'' = [''1'', ''2T'', []] \<and>
   list_ex singleCharacter [''1'', ''2T'', []] \<and>
   list_ex multiCharacter [''1'', ''2T'', []] \<and>
   setSearchQueryOnBuilder newSolrQuery ''mode'' (QArr [''1'', ''2T'', []]) =
     [\<lparr>cfield = ''_hardcodedSpecialQuery'',
       cvalue = QStr ''(mode:(1) OR mode_t_hidden:(2T OR ))'', combinator = None\<rparr>] \<and>
   hardCodedQuery (filter singleCharacter [''1'', ''2T'', []])
       (filter multiCharacter [''1'', ''2T'', []]) =
     ''(mode:(1) OR mode_t_hidden:(2T))''"
  by (simp add: singleCharacter_def multiCharacter_def setSearchQueryOnBuilder_def
      setField_def newSolrQuery_def hardCodedQuery_def)

text \<open>
  C3 (amended): a mode-field query (an array) without empty values that contains a
  single-character value and a multi-character value adds exactly one constraint: the raw
  clause \<open>(mode:(v1 OR ...) OR mode_t_hidden:(w1 OR ...))\<close> under the name
  \<open>_hardcodedSpecialQuery\<close>, where the \<open>v\<close> are the single-character values and the
  \<open>w\<close> the multi-character values, each in the order of the query. No constraint is added
  on \<open>mode\<close> or on \<open>mode_t_hidden\<close>.
\<close>

theorem mode_query_both_kinds:
  assumes "[] \<notin> set vs" and "list_ex singleCharacter vs" and "list_ex multiCharacter vs"
  shows "setSearchQueryOnBuilder qb ''mode'' (QArr vs) =
     qb @ [\<lparr>cfield = ''_hardcodedSpecialQuery'',
            cvalue = QStr (''(mode:('' @ join '' OR '' (filter singleCharacter vs) @
                           '') OR mode_t_hidden:('' @
                           join '' OR '' (filter multiCharacter vs) @ ''))''),
            combinator = None\<rparr>]"
proof -
  have single: "filter (\<lambda>v. length v = 1) vs = filter singleCharacter vs"
    by (rule filter_cong [OF refl]) (simp add: singleCharacter_def)
  have "(length v \<noteq> 1) = multiCharacter v" if "v \<in> set vs" for v
  proof -
    from that assms(1) have "v \<noteq> []"
      by auto
    then have "0 < length v"
      by simp
    then show ?thesis
      unfolding multiCharacter_def by arith
  qed
  then have multi: "filter (\<lambda>v. length v \<noteq> 1) vs = filter multiCharacter vs"
    by (rule filter_cong [OF refl])
  have part: "partitionModeValues vs ([], []) =
      (filter singleCharacter vs, filter multiCharacter vs)"
    unfolding partitionModeValues_filter single multi by simp
  from assms(2,3) have "filter singleCharacter vs \<noteq> []" and "filter multiCharacter vs \<noteq> []"
    by (auto simp: list_ex_iff filter_empty_conv)
  then show ?thesis
    by (simp add: setSearchQueryOnBuilder_def setField_def part hardCodedQuery_def)
qed

theorem mode_query_both_kinds_witness:
  "[] \<notin> set [''1'', ''2T'', ''3''] \<and>
   list_ex singleCharacter [''1'', ''2T'', ''3''] \<and> list_ex multiCharacter [''1'', ''2T'', ''3''] \<and>
   setSearchQueryOnBuilder newSolrQuery ''mode'' (QArr [''1'', ''2T'', ''3'']) =
     [\<lparr>cfield = ''_hardcodedSpecialQuery'',
       cvalue = QStr ''(mode:(1 OR 3) OR mode_t_hidden:(2T))'', combinator = None\<rparr>]"
  using mode_query_both_kinds [of "[''1'', ''2T'', ''3'']" newSolrQuery]
  by (simp add: singleCharacter_def multiCharacter_def newSolrQuery_def)

subsection \<open>Searching\<close>

text \<open>
  \<open>split_comma\<close> is a split at the commas: joining the pieces with commas gives the
  string back, and no piece contains a comma.
\<close>

lemma split_comma_not_Nil: "split_comma s \<noteq> []"
  by (induction s) (auto split: list.splits)

lemma join_Cons: "ws \<noteq> [] \<Longrightarrow> join sep (w # ws) = w @ sep @ join sep ws"
  by (cases ws) auto

lemma join_Cons_Cons: "join sep ((c # w) # ws) = c # join sep (w # ws)"
  by (cases ws) auto

lemma split_comma_join: "join '','' (split_comma s) = s"
proof (induction s)
  case Nil
  show ?case by simp
next
  case (Cons c cs)
  obtain w ws where ws: "split_comma cs = w # ws"
    using split_comma_not_Nil [of cs] by (cases "split_comma cs") auto
  show ?case
  proof (cases "c = CHR '',''")
    case True
    with Cons ws show ?thesis by (simp add: join_Cons)
  next
    case False
    with Cons ws show ?thesis by (simp add: join_Cons_Cons)
  qed
qed

lemma split_comma_no_comma: "w \<in> set (split_comma s) \<Longrightarrow> CHR '','' \<notin> set w"
  by (induction s arbitrary: w) (auto split: list.splits if_splits)

text \<open>The two paths of \<open>search\<close>, and the constraints the restrictions add.\<close>

lemma applyRestrictions_map:
  "applyRestrictions qb rs =
     qb @ map (\<lambda>r. \<lparr>cfield = getSearchField (fst r), cvalue = QStr (snd r), combinator = None\<rparr>) rs"
  unfolding applyRestrictions_def
  by (induction rs arbitrary: qb) (auto simp: setField_def)

lemma search_nonempty:
  assumes "query (searchParameters s) = Some q" and "\<not> falsy (Some q)"
  shows "search s = s\<lparr>collection := fetch (collection s)
           (applyRestrictions
              (setSearchQueryOnBuilder newSolrQuery (field (searchParameters s))
                 (splitQuery (field (searchParameters s)) q))
              (restrictions s))\<rparr>"
  using assms by (simp add: search_def Let_def)

lemma search_empty:
  assumes "falsy (query (searchParameters s))"
  shows "search s = s\<lparr>collection := reset (invalidateFetch (collection s))\<rparr>"
  using assms by (simp add: search_def Let_def)

lemma getSearchField_not_string_field: "getSearchField f \<notin> set stringFields"
  by (auto simp: getSearchField_def stringFields_def)

text \<open>
  C4: when the current query is falsy (unset or the empty string), \<open>search\<close> does
  nothing but \<open>invalidateFetch\<close> and \<open>reset\<close> on the collection: the result
  sequence is empty and \<open>numFound\<close> is 0, no request has been issued, and the completion
  of any fetch, in flight or not, no longer changes the collection.
\<close>

theorem search_empty_query:
  "falsy (query (searchParameters s)) \<Longrightarrow>
     search s = s\<lparr>collection := reset (invalidateFetch (collection s))\<rparr> \<and>
     models (collection (search s)) = [] \<and>
     metadata_numFound (collection (search s)) = 0 \<and>
     issued (collection (search s)) = issued (collection s) \<and>
     fetchComplete (collection (search s)) tok resp = collection (search s)"
  by (simp add: search_empty reset_def invalidateFetch_def fetchComplete_def)

theorem search_empty_query_witness:
  "falsy (query (searchParameters inFlight)) \<and>
   models (collection (search inFlight)) = [] \<and>
   metadata_numFound (collection (search inFlight)) = 0 \<and>
   issued (collection (search inFlight)) = issued (collection inFlight) \<and>
   fetchComplete (collection (search inFlight)) 0 \<lparr>results = [7], numFound = 1\<rparr> =
     collection (search inFlight) \<and>
   fetchComplete (collection inFlight) 0 \<lparr>results = [7], numFound = 1\<rparr> \<noteq> collection inFlight"
proof -
  have h: "falsy (query (searchParameters inFlight))"
    by (simp add: inFlight_def)
  have late: "fetchComplete (collection inFlight) 0 \<lparr>results = [7], numFound = 1\<rparr> \<noteq>
      collection inFlight"
    by (simp add: inFlight_def fetchComplete_def)
  from search_empty_query [OF h, of 0 "\<lparr>results = [7], numFound = 1\<rparr>"] h late
  show ?thesis by blast
qed

text \<open>
  C5: two searches with non-empty queries are made in sequence, on \<open>s\<close> and then on
  \<open>s'\<close>, whose search input and restrictions may have changed in between while the
  collection is as the first search left it; \<open>first\<close> and \<open>second\<close> are the tokens of
  the fetches they issue. When the response of the first fetch arrives after the second
  fetch was issued, before or after the second response, it changes neither the stored
  results nor the metadata: the final state is that of the second response alone.
\<close>

theorem superseded_fetch_ignored:
  assumes "\<not> falsy (query (searchParameters s))"
    and "collection s' = collection (search s)"
    and "\<not> falsy (query (searchParameters s'))"
  shows "let first = length (issued (collection s));
             second = Suc first;
             c = collection (search s')
         in length (issued c) = Suc second \<and>
            fetchComplete c first resp1 = c \<and>
            fetchComplete (fetchComplete c second resp2) first resp1 = fetchComplete c second resp2 \<and>
            models (fetchComplete c second resp2) = results resp2 \<and>
            metadata_numFound (fetchComplete c second resp2) = numFound resp2"
proof -
  obtain q where q: "query (searchParameters s) = Some q" "\<not> falsy (Some q)"
    using assms(1) by (cases "query (searchParameters s)") auto
  obtain q' where q': "query (searchParameters s') = Some q'" "\<not> falsy (Some q')"
    using assms(3) by (cases "query (searchParameters s')") auto
  show ?thesis
    unfolding Let_def search_nonempty [OF q']
    by (simp add: assms(2) search_nonempty [OF q] fetch_def fetchComplete_def)
qed

theorem superseded_fetch_ignored_witness:
  "\<not> falsy (query (searchParameters restrictedSearch)) \<and>
   collection feastAfterwards = collection (search restrictedSearch) \<and>
   \<not> falsy (query (searchParameters feastAfterwards)) \<and>
   length (issued (collection restrictedSearch)) = 0 \<and>
   fetchComplete
     (fetchComplete (collection (search feastAfterwards)) (Suc 0) \<lparr>results = [5, 6], numFound = 2\<rparr>)
     0 \<lparr>results = [9], numFound = 1\<rparr> =
   fetchComplete (collection (search feastAfterwards)) (Suc 0) \<lparr>results = [5, 6], numFound = 2\<rparr> \<and>
   models
     (fetchComplete (collection (search feastAfterwards)) (Suc 0) \<lparr>results = [5, 6], numFound = 2\<rparr>) =
     [5, 6]"
proof -
  have h1: "\<not> falsy (query (searchParameters restrictedSearch))"
    by (simp add: restrictedSearch_def)
  have h2: "collection feastAfterwards = collection (search restrictedSearch)"
    by (simp add: feastAfterwards_def)
  have h3: "\<not> falsy (query (searchParameters feastAfterwards))"
    by (simp add: feastAfterwards_def feastSearch_def)
  have z: "length (issued (collection restrictedSearch)) = 0"
    by (simp add: restrictedSearch_def)
  from superseded_fetch_ignored [OF h1 h2 h3, of "\<lparr>results = [9], numFound = 1\<rparr>"
      "\<lparr>results = [5, 6], numFound = 2\<rparr>"] h1 h2 h3 z
  show ?thesis by (simp add: Let_def)
qed

text \<open>
  C7, as stated, fails for a field other than mode: a string query against \<open>feast\<close> is
  split at its comma, since the guard of the split is \<open>field !== 'all'\<close>.
\<close>

theorem search_other_field_split_counterexample:
  "field (searchParameters feastSearch) \<noteq> ''mode'' \<and>
   query (searchParameters feastSearch) = Some (QStr ''Nativitas,Epiphania'') \<and>
   issued (collection (search feastSearch)) =
     [[\<lparr>cfield = ''feast_t_hidden'', cvalue = QArr [''Nativitas'', ''Epiphania''],
        combinator = Some ''OR''\<rparr>]]"
  by (simp add: feastSearch_def search_def fetch_def applyRestrictions_def
      setSearchQueryOnBuilder_def setField_def newSolrQuery_def getSearchField_def
      stringFields_def)

text \<open>
  C7 (amended): in \<open>search\<close>, a string query is split on commas into a value sequence
  whenever the field is not \<open>all\<close>, for the mode field and for every other field alike;
  a string query against \<open>all\<close> and an array query are handed on as they are.
\<close>

theorem search_comma_split:
  assumes "query (searchParameters s) = Some q" and "\<not> falsy (Some q)"
  shows "issued (collection (search s)) =
     issued (collection s) @
       [applyRestrictions
          (setSearchQueryOnBuilder newSolrQuery (field (searchParameters s))
             (case q of
                QStr str \<Rightarrow>
                  if field (searchParameters s) = ''all'' then QStr str
                  else QArr (split_comma str)
              | QArr vs \<Rightarrow> QArr vs))
          (restrictions s)]"
  unfolding search_nonempty [OF assms]
  by (cases q) (simp_all add: fetch_def)

theorem search_comma_split_witness:
  "query (searchParameters feastSearch) = Some (QStr ''Nativitas,Epiphania'') \<and>
   \<not> falsy (Some (QStr ''Nativitas,Epiphania'')) \<and>
   issued (collection (search feastSearch)) =
     [[\<lparr>cfield = ''feast_t_hidden'', cvalue = QArr [''Nativitas'', ''Epiphania''],
        combinator = Some ''OR''\<rparr>]] \<and>
   query (searchParameters restrictedSearch) = Some (QStr ''pater'') \<and>
   \<not> falsy (Some (QStr ''pater'')) \<and>
   hd (hd (issued (collection (search restrictedSearch)))) =
     \<lparr>cfield = ''all'', cvalue = QStr ''pater'', combinator = Some ''OR''\<rparr>"
proof -
  have f: "query (searchParameters feastSearch) = Some (QStr ''Nativitas,Epiphania'')"
    by (simp add: feastSearch_def)
  have r: "query (searchParameters restrictedSearch) = Some (QStr ''pater'')"
    by (simp add: restrictedSearch_def)
  have nf: "\<not> falsy (Some (QStr ''Nativitas,Epiphania''))" and nr: "\<not> falsy (Some (QStr ''pater''))"
    by simp_all
  have "issued (collection (search feastSearch)) =
     [[\<lparr>cfield = ''feast_t_hidden'', cvalue = QArr [''Nativitas'', ''Epiphania''],
        combinator = Some ''OR''\<rparr>]]"
    unfolding search_comma_split [OF f nf]
    by (simp add: feastSearch_def applyRestrictions_def setSearchQueryOnBuilder_def
        setField_def newSolrQuery_def getSearchField_def stringFields_def)
  moreover have "hd (hd (issued (collection (search restrictedSearch)))) =
     \<lparr>cfield = ''all'', cvalue = QStr ''pater'', combinator = Some ''OR''\<rparr>"
    unfolding search_comma_split [OF r nr]
    by (simp add: restrictedSearch_def applyRestrictions_def setSearchQueryOnBuilder_def
        setField_def newSolrQuery_def getSearchField_def stringFields_def)
  ultimately show ?thesis using f r nf nr by blast
qed

text \<open>The query itself always adds one constraint, the first of the request.\<close>

lemma setSearchQueryOnBuilder_length:
  "length (setSearchQueryOnBuilder qb f q) = Suc (length qb)"
  by (simp add: setSearchQueryOnBuilder_def setField_def split: qvalue.splits prod.splits)

text \<open>
  C10: in a search with a non-empty query, every restriction (field, value) adds, after
  the constraint of the query and in the order of the restrictions, a constraint whose
  field is \<open>getSearchField field\<close>. A restriction on a string-indexed field such as
  \<open>feast\<close> therefore constrains \<open>feast_t_hidden\<close>, and no restriction constrains a
  string-indexed field under its exact name.
\<close>

theorem search_restrictions_searchable:
  assumes "query (searchParameters s) = Some q" and "\<not> falsy (Some q)"
  shows "issued (collection (search s)) =
     issued (collection s) @
       [setSearchQueryOnBuilder newSolrQuery (field (searchParameters s))
          (splitQuery (field (searchParameters s)) q) @
        map (\<lambda>r. \<lparr>cfield = getSearchField (fst r), cvalue = QStr (snd r), combinator = None\<rparr>)
          (restrictions s)] \<and>
     (\<forall>r \<in> set (restrictions s). fst r \<in> set stringFields \<longrightarrow>
        \<lparr>cfield = fst r @ ''_t_hidden'', cvalue = QStr (snd r), combinator = None\<rparr>
          \<in> set (drop 1 (last (issued (collection (search s)))))) \<and>
     (\<forall>c \<in> set (drop 1 (last (issued (collection (search s))))). cfield c \<notin> set stringFields)"
proof -
  let ?base = "setSearchQueryOnBuilder newSolrQuery (field (searchParameters s))
          (splitQuery (field (searchParameters s)) q)"
  let ?rs = "map (\<lambda>r. \<lparr>cfield = getSearchField (fst r), cvalue = QStr (snd r), combinator = None\<rparr>)
          (restrictions s)"
  have eq: "issued (collection (search s)) = issued (collection s) @ [?base @ ?rs]"
    unfolding search_nonempty [OF assms] by (simp add: fetch_def applyRestrictions_map)
  have len: "length ?base = 1"
    by (simp add: setSearchQueryOnBuilder_length newSolrQuery_def)
  have drop: "drop 1 (last (issued (collection (search s)))) = ?rs"
    unfolding eq using len by simp
  have a: "\<forall>r \<in> set (restrictions s). fst r \<in> set stringFields \<longrightarrow>
        \<lparr>cfield = fst r @ ''_t_hidden'', cvalue = QStr (snd r), combinator = None\<rparr> \<in> set ?rs"
  proof (intro ballI impI)
    fix r assume r: "r \<in> set (restrictions s)" and "fst r \<in> set stringFields"
    then have "getSearchField (fst r) = fst r @ ''_t_hidden''"
      by (simp add: getSearchField_def)
    with r show "\<lparr>cfield = fst r @ ''_t_hidden'', cvalue = QStr (snd r), combinator = None\<rparr> \<in> set ?rs"
      by force
  qed
  have b: "\<forall>c \<in> set ?rs. cfield c \<notin> set stringFields"
    using getSearchField_not_string_field by auto
  from eq a b show ?thesis unfolding drop by blast
qed

theorem search_restrictions_searchable_witness:
  "query (searchParameters restrictedSearch) = Some (QStr ''pater'') \<and>
   \<not> falsy (Some (QStr ''pater'')) \<and>
   (''feast'', ''Easter'') \<in> set (restrictions restrictedSearch) \<and>
   ''feast'' \<in> set stringFields \<and>
   \<lparr>cfield = ''feast_t_hidden'', cvalue = QStr ''Easter'', combinator = None\<rparr>
     \<in> set (drop 1 (last (issued (collection (search restrictedSearch))))) \<and>
   issued (collection (search restrictedSearch)) =
     [[\<lparr>cfield = ''all'', cvalue = QStr ''pater'', combinator = Some ''OR''\<rparr>,
       \<lparr>cfield = ''manuscript'', cvalue = QStr ''CDN-Hsmu M2149.L4'', combinator = None\<rparr>,
       \<lparr>cfield = ''feast_t_hidden'', cvalue = QStr ''Easter'', combinator = None\<rparr>]]"
proof -
  have r: "query (searchParameters restrictedSearch) = Some (QStr ''pater'')"
    by (simp add: restrictedSearch_def)
  have nr: "\<not> falsy (Some (QStr ''pater''))"
    by simp
  have m: "(''feast'', ''Easter'') \<in> set (restrictions restrictedSearch)"
    by (simp add: restrictedSearch_def)
  have sf: "''feast'' \<in> set stringFields"
    by (simp add: stringFields_def)
  note inst = search_restrictions_searchable [OF r nr]
  from inst m sf have "\<lparr>cfield = ''feast_t_hidden'', cvalue = QStr ''Easter'', combinator = None\<rparr>
     \<in> set (drop 1 (last (issued (collection (search restrictedSearch)))))"
    by force
  moreover have "issued (collection (search restrictedSearch)) =
     [[\<lparr>cfield = ''all'', cvalue = QStr ''pater'', combinator = Some ''OR''\<rparr>,
       \<lparr>cfield = ''manuscript'', cvalue = QStr ''CDN-Hsmu M2149.L4'', combinator = None\<rparr>,
       \<lparr>cfield = ''feast_t_hidden'', cvalue = QStr ''Easter'', combinator = None\<rparr>]]"
    unfolding conjunct1 [OF inst]
    by (simp add: restrictedSearch_def setSearchQueryOnBuilder_def setField_def newSolrQuery_def
        getSearchField_def stringFields_def)
  ultimately show ?thesis using r nr m sf by blast
qed

subsection \<open>Synchronising results with the viewer\<close>

text \<open>After every synchronisation the callback ends in the failing call.\<close>

lemma resultFetchCallback_throws:
  "resultFetchCallback s = ThrewTypeError (stateOf (resultFetchCallback s))"
  by (simp add: resultFetchCallback_def renderResults_def Let_def)




subsection \<open>Templates\<close>

text \<open>
  C8: a template identifier whose file (the identifier without a leading \<open>#\<close>, followed
  by \<open>.html\<close>) is not in the bundle makes \<open>loadTemplate\<close> throw an error named
  \<open>NoTemplateError\<close>, which is the result of the call; for an identifier whose file is
  in the bundle, \<open>loadTemplate\<close> returns the stored compiled template itself.
\<close>

theorem loadTemplate_result:
  "(templates (templateFile templateId) = None \<longrightarrow>
      loadTemplate templates templateId =
        Inl \<lparr>errName = ''NoTemplateError'',
             errMessage = ''Could not find template: '' @ [CHR 0x22] @ templateId @
               [CHR 0x22] @ '' ('' @ templateFile templateId @ '')''\<rparr>) \<and>
   (templates (templateFile templateId) = Some t \<longrightarrow>
      loadTemplate templates templateId = Inr t)"
  by (simp add: loadTemplate_def)

theorem loadTemplate_result_witness:
  "bundled (templateFile ''#folio'') = None \<and>
   map_sum errName id (loadTemplate bundled ''#folio'') = Inl ''NoTemplateError'' \<and>
   bundled (templateFile ''#search'') = Some 2 \<and>
   loadTemplate bundled ''#search'' = Inr 2"
proof -
  have n: "bundled (templateFile ''#folio'') = None"
    by (simp add: bundled_def templateFile_def)
  have s: "bundled (templateFile ''#search'') = Some 2"
    by (simp add: bundled_def templateFile_def)
  from loadTemplate_result [of bundled "''#folio''" 0] loadTemplate_result [of bundled "''#search''" 2]
    n s
  show ?thesis by simp
qed










end
